theory Spec2Isabelle
  imports Main "HOL-Library.Word"
begin

unbundle bit_operations_syntax

section \<open>The evdev beep driver (beep-driver-evdev.c)\<close>

text \<open>
  The driver talks to the kernel through five calls: the helper
  \<open>open_checked_char_device\<close>, two \<open>ioctl\<close> requests, \<open>write\<close> and \<open>close\<close>.
  The embedding threads an explicit \<open>world\<close> through every driver function: the set of
  file descriptors the process holds open, the kernel calls made so far (in order), and
  the lines handed to \<open>LOG_VERBOSE\<close>. What the kernel answers is a parameter, the record
  \<open>kernel\<close>, so every theorem holds for every device behaviour.
\<close>

subsection \<open>Constants of linux/input.h\<close>

definition EV_SND :: "16 word" where
  "EV_SND = 0x12"

definition SND_BELL :: nat where
  "SND_BELL = 1"

definition SND_TONE :: nat where
  "SND_TONE = 2"

text \<open>
  \<open>struct input_event\<close>: a timestamp (seconds and microseconds), then the three
  significant fields \<open>type\<close> (\<open>__u16\<close>), \<open>code\<close> (\<open>__u16\<close>) and \<open>value\<close> (\<open>__s32\<close>).
  With 64-bit time fields the structure has 24 bytes and no padding.
\<close>

record input_event =
  ev_time_sec :: "64 word"
  ev_time_usec :: "64 word"
  ev_type :: "16 word"
  ev_code :: "16 word"
  ev_value :: "32 word"

definition sizeof_input_event :: nat where
  "sizeof_input_event = 24"

text \<open>\<open>memset(&e, 0, sizeof(e))\<close>: every field of the record is zero.\<close>

definition memset_zero :: input_event where
  "memset_zero = \<lparr>ev_time_sec = 0, ev_time_usec = 0, ev_type = 0, ev_code = 0, ev_value = 0\<rparr>"

subsection \<open>The driver instance\<close>

text \<open>
  \<open>enum snd_api_type\<close> and the integer each enumerator stands for; the instance keeps
  the selected enumerator in its integer field \<open>device_flags\<close>.
\<close>

datatype snd_api_type = SND_API_TONE | SND_API_BELL

fun snd_api_int :: "snd_api_type \<Rightarrow> int" where
  "snd_api_int SND_API_TONE = 0"
| "snd_api_int SND_API_BELL = 1"

text \<open>
  The data fields of \<open>beep_driver\<close> that this file reads or writes. \<open>device_name\<close> is a
  pointer to a string, \<open>None\<close> when it is \<open>NULL\<close>. The function pointers and the list
  link of the structure are not data of the driver and are left out.
\<close>

record beep_driver =
  name :: string
  device_fd :: int
  device_name :: "string option"
  device_flags :: int

text \<open>The statically initialised instance: \<open>"evdev"\<close>, then \<open>0\<close>, \<open>NULL\<close>, \<open>0\<close>.\<close>

definition driver_data :: beep_driver where
  "driver_data = \<lparr>name = ''evdev'', device_fd = 0, device_name = None, device_flags = 0\<rparr>"

subsection \<open>The world outside the driver\<close>

datatype syscall =
    Open_checked_char_device string
  | Ioctl_EVIOCGSND int
  | Ioctl_EVIOCGBIT int
  | Close int
  | Write int input_event nat

record world =
  open_fds :: "int set"
  calls :: "syscall list"
  logged :: "string list"

text \<open>
  The answers of the kernel. \<open>chardev_fd\<close> is the descriptor handed out for a path that
  is an openable character device (\<open>None\<close> otherwise); \<open>eviocgsnd\<close> is the return value of
  \<open>ioctl(fd, EVIOCGSND(0))\<close>; \<open>eviocgbit\<close> takes the descriptor and the content of the
  buffer and gives the return value of \<open>ioctl(fd, EVIOCGBIT(EV_SND, ...), &evbit)\<close> and
  the buffer afterwards; \<open>write_count\<close> is the \<open>ssize_t\<close> that \<open>write\<close> returns.
\<close>

record kernel =
  chardev_fd :: "string \<Rightarrow> nat option"
  eviocgsnd :: "int \<Rightarrow> int"
  eviocgbit :: "int \<Rightarrow> 64 word \<Rightarrow> int \<times> 64 word"
  write_count :: "int \<Rightarrow> input_event \<Rightarrow> nat \<Rightarrow> 64 word"

text \<open>
  \<open>LOG_VERBOSE\<close> is a macro of beep-log.h; the model records the format string of each
  line and not its formatted arguments.
\<close>

definition log_verbose :: "string \<Rightarrow> world \<Rightarrow> world" where
  "log_verbose msg w = w\<lparr>logged := logged w @ [msg]\<rparr>"

text \<open>
  Modelled from the spec: \<open>open_checked_char_device\<close> of beep-library.c is not part of
  this file. The spec gives its contract: given a path, it opens it and confirms it is a
  character device, and returns an open handle or a negative signal. Here it returns the
  descriptor the kernel hands out, which is then open, or \<open>-1\<close> with nothing opened.
\<close>

definition open_checked_char_device :: "kernel \<Rightarrow> string \<Rightarrow> world \<Rightarrow> int \<times> world" where
  "open_checked_char_device k path w =
     (case chardev_fd k path of
        None \<Rightarrow> (-1, w\<lparr>calls := calls w @ [Open_checked_char_device path]\<rparr>)
      | Some n \<Rightarrow>
          (int n, w\<lparr>open_fds := insert (int n) (open_fds w),
                    calls := calls w @ [Open_checked_char_device path]\<rparr>))"

definition ioctl_EVIOCGSND :: "kernel \<Rightarrow> int \<Rightarrow> world \<Rightarrow> int \<times> world" where
  "ioctl_EVIOCGSND k fd w = (eviocgsnd k fd, w\<lparr>calls := calls w @ [Ioctl_EVIOCGSND fd]\<rparr>)"

definition ioctl_EVIOCGBIT :: "kernel \<Rightarrow> int \<Rightarrow> 64 word \<Rightarrow> world \<Rightarrow> int \<times> 64 word \<times> world" where
  "ioctl_EVIOCGBIT k fd buf w =
     (fst (eviocgbit k fd buf), snd (eviocgbit k fd buf),
      w\<lparr>calls := calls w @ [Ioctl_EVIOCGBIT fd]\<rparr>)"

text \<open>\<open>close(fd)\<close>: afterwards the process no longer holds \<open>fd\<close>.\<close>

definition sys_close :: "int \<Rightarrow> world \<Rightarrow> world" where
  "sys_close fd w = w\<lparr>open_fds := open_fds w - {fd}, calls := calls w @ [Close fd]\<rparr>"

definition sys_write :: "kernel \<Rightarrow> int \<Rightarrow> input_event \<Rightarrow> nat \<Rightarrow> world \<Rightarrow> 64 word \<times> world" where
  "sys_write k fd e n w = (write_count k fd e n, w\<lparr>calls := calls w @ [Write fd e n]\<rparr>)"

text \<open>A \<open>void\<close> driver function either returns to its caller or ends the process.\<close>

datatype outcome = Returns world | Exits string world

text \<open>
  Modelled from the spec: \<open>safe_error_exit\<close> of beep-library.c is not part of this file.
  The spec says that it terminates the process rather than returning an error; the model
  ends the run with the message it was given and never returns to the caller.
\<close>

definition safe_error_exit :: "string \<Rightarrow> world \<Rightarrow> outcome" where
  "safe_error_exit msg w = Exits msg w"

fun world_of :: "outcome \<Rightarrow> world" where
  "world_of (Returns w) = w"
| "world_of (Exits msg w) = w"

fun returned :: "outcome \<Rightarrow> bool" where
  "returned (Returns w) = True"
| "returned (Exits msg w) = False"

subsection \<open>Opening and probing the device\<close>

definition open_checked_device :: "kernel \<Rightarrow> string \<Rightarrow> world \<Rightarrow> int \<times> world" where
  "open_checked_device k path w =
     (let (fd, w1) = open_checked_char_device k path w in
      if fd = -1 then (-1, w1)
      else
        let (r, w2) = ioctl_EVIOCGSND k fd w1 in
        if r = -1 then (-1, log_verbose ''%d does not implement EV_SND API'' w2)
        else (fd, w2))"

definition default_name :: string where
  "default_name = ''/dev/input/by-path/platform-pcspkr-event-spkr''"

text \<open>
  The first half of \<open>driver_detect\<close>: the trace line, then the one open attempt, storing
  descriptor and name on success. The result is the local \<open>device_open\<close>, the instance
  and the world.
\<close>

definition detect_open :: "kernel \<Rightarrow> beep_driver \<Rightarrow> string option \<Rightarrow> world \<Rightarrow> bool \<times> beep_driver \<times> world" where
  "detect_open k driver console_device w =
     (case console_device of
        Some cd \<Rightarrow>
          (let (fd, w1) = open_checked_device k cd (log_verbose ''driver_detect %p %s'' w) in
           if fd \<ge> 0 then (True, driver\<lparr>device_fd := fd, device_name := Some cd\<rparr>, w1)
           else (False, driver, w1))
      | None \<Rightarrow>
          (let (fd, w1) = open_checked_device k default_name (log_verbose ''driver_detect %p %p'' w) in
           if fd \<ge> 0 then (True, driver\<lparr>device_fd := fd, device_name := Some default_name\<rparr>, w1)
           else (False, driver, w1)))"

text \<open>
  The second half: the bitmask query and the choice of the protocol, tone before bell.
  \<open>1 << SND_TONE\<close> is \<open>push_bit SND_TONE 1\<close>; \<open>evbit\<close> is an \<open>unsigned long\<close>.
\<close>

definition detect_probe :: "kernel \<Rightarrow> beep_driver \<Rightarrow> world \<Rightarrow> bool \<times> beep_driver \<times> world" where
  "detect_probe k driver w =
     (let (r, evbit, w1) = ioctl_EVIOCGBIT k (device_fd driver) 0 w in
      if r = -1 then (False, driver, log_verbose ''%d does not implement EVIOCGBIT'' w1)
      else if evbit AND push_bit SND_TONE 1 \<noteq> 0 then
        (True, driver\<lparr>device_flags := snd_api_int SND_API_TONE\<rparr>,
         log_verbose ''found SND_TONE support for fd=%d'' w1)
      else if evbit AND push_bit SND_BELL 1 \<noteq> 0 then
        (True, driver\<lparr>device_flags := snd_api_int SND_API_BELL\<rparr>,
         log_verbose ''falling back to SND_BELL support for fd=%d'' w1)
      else
        (False, driver, log_verbose ''fd=%d supports neither SND_TONE nor SND_BELL'' w1))"

definition driver_detect :: "kernel \<Rightarrow> beep_driver \<Rightarrow> string option \<Rightarrow> world \<Rightarrow> bool \<times> beep_driver \<times> world" where
  "driver_detect k driver console_device w =
     (let (device_open, driver1, w1) = detect_open k driver console_device w in
      if \<not> device_open then (False, driver1, w1)
      else detect_probe k driver1 w1)"

subsection \<open>Reading the outcome of a detection\<close>

text \<open>
  The path that \<open>driver_detect\<close> hands to \<open>open_checked_device\<close>: the caller's, or
  the default when the caller gave none. And the test that picks the open attempts out of
  the list of kernel calls.
\<close>

definition attempted_path :: "string option \<Rightarrow> string" where
  "attempted_path console_device =
     (case console_device of Some cd \<Rightarrow> cd | None \<Rightarrow> default_name)"

fun is_open_attempt :: "syscall \<Rightarrow> bool" where
  "is_open_attempt (Open_checked_char_device p) = True"
| "is_open_attempt c = False"

subsection \<open>Lifecycle callbacks\<close>

definition driver_init :: "beep_driver \<Rightarrow> world \<Rightarrow> beep_driver \<times> world" where
  "driver_init driver w = (driver, log_verbose ''driver_init %p'' w)"

definition driver_fini :: "beep_driver \<Rightarrow> world \<Rightarrow> beep_driver \<times> world" where
  "driver_fini driver w =
     (driver\<lparr>device_fd := -1\<rparr>,
      sys_close (device_fd driver) (log_verbose ''driver_fini %p'' w))"

subsection \<open>Emitting tones\<close>

text \<open>
  The record that \<open>driver_begin_tone\<close> builds before it writes: zeroed, the type set,
  then the \<open>switch\<close> on \<open>device_flags\<close>. The \<open>switch\<close> has no default case, so any other
  flag value leaves code and value as the \<open>memset\<close> left them. \<open>e.value = freq\<close> widens
  the \<open>uint16_t\<close> to the 32-bit field; \<open>(0 == 0)\<close> is \<open>1\<close> and \<open>(0 != 0)\<close> is \<open>0\<close>.
\<close>

definition begin_tone_event :: "beep_driver \<Rightarrow> 16 word \<Rightarrow> input_event" where
  "begin_tone_event driver freq =
     (let e = memset_zero\<lparr>ev_type := EV_SND\<rparr> in
      if device_flags driver = snd_api_int SND_API_TONE then
        e\<lparr>ev_code := word_of_nat SND_TONE, ev_value := ucast freq\<rparr>
      else if device_flags driver = snd_api_int SND_API_BELL then
        e\<lparr>ev_code := word_of_nat SND_BELL, ev_value := 1\<rparr>
      else e)"

definition end_tone_event :: "beep_driver \<Rightarrow> input_event" where
  "end_tone_event driver =
     (let e = memset_zero\<lparr>ev_type := EV_SND\<rparr> in
      if device_flags driver = snd_api_int SND_API_TONE then
        e\<lparr>ev_code := word_of_nat SND_TONE, ev_value := 0\<rparr>
      else if device_flags driver = snd_api_int SND_API_BELL then
        e\<lparr>ev_code := word_of_nat SND_BELL, ev_value := 0\<rparr>
      else e)"

text \<open>
  \<open>sizeof(e) != write(...)\<close> compares a \<open>size_t\<close> with an \<open>ssize_t\<close>: the comparison is
  made on the 64-bit unsigned values, so \<open>-1\<close> differs from the size as well.
\<close>

definition driver_begin_tone :: "kernel \<Rightarrow> beep_driver \<Rightarrow> 16 word \<Rightarrow> world \<Rightarrow> outcome" where
  "driver_begin_tone k driver freq w =
     (let e = begin_tone_event driver freq;
          (n, w1) = sys_write k (device_fd driver) e sizeof_input_event
                      (log_verbose ''driver_begin_tone %p %u'' w) in
      if word_of_nat sizeof_input_event \<noteq> n then safe_error_exit ''write EV_SND'' w1
      else Returns w1)"

definition driver_end_tone :: "kernel \<Rightarrow> beep_driver \<Rightarrow> world \<Rightarrow> outcome" where
  "driver_end_tone k driver w =
     (let e = end_tone_event driver;
          (n, w1) = sys_write k (device_fd driver) e sizeof_input_event
                      (log_verbose ''driver_end_tone %p'' w) in
      if word_of_nat sizeof_input_event \<noteq> n then safe_error_exit ''write EV_SND'' w1
      else Returns w1)"

subsection \<open>Sample devices and worlds\<close>

text \<open>
  A PC speaker that advertises both sound codes and accepts every write in full, handed
  out as descriptor 3; and a process with the three standard descriptors open.
\<close>

definition pcspkr :: kernel where
  "pcspkr = \<lparr>chardev_fd = (\<lambda>p. Some 3), eviocgsnd = (\<lambda>fd. 0),
             eviocgbit = (\<lambda>fd buf. (1, 6)), write_count = (\<lambda>fd e n. 24)\<rparr>"

definition fresh_world :: world where
  "fresh_world = \<lparr>open_fds = {0, 1, 2}, calls = [], logged = []\<rparr>"

text \<open>
  A device that accepts only 8 bytes of each write; and an instance as a successful
  detection leaves it, for each of the two protocols.
\<close>

definition short_writer :: kernel where
  "short_writer = pcspkr\<lparr>write_count := (\<lambda>fd e n. 8)\<rparr>"

definition detected_tone :: beep_driver where
  "detected_tone = driver_data\<lparr>device_fd := 3, device_name := Some default_name,
                     device_flags := snd_api_int SND_API_TONE\<rparr>"

definition detected_bell :: beep_driver where
  "detected_bell = driver_data\<lparr>device_fd := 3, device_name := Some default_name,
                     device_flags := snd_api_int SND_API_BELL\<rparr>"

text \<open>
  Three devices that differ from the PC speaker in one answer each: one without the
  sound-event class, one whose bitmask query fails, and one that advertises only the
  click code (bit 0).
\<close>

definition no_snd_device :: kernel where
  "no_snd_device = pcspkr\<lparr>eviocgsnd := (\<lambda>fd. -1)\<rparr>"

definition no_evbit_device :: kernel where
  "no_evbit_device = pcspkr\<lparr>eviocgbit := (\<lambda>fd buf. (-1, buf))\<rparr>"

definition click_only_device :: kernel where
  "click_only_device = pcspkr\<lparr>eviocgbit := (\<lambda>fd buf. (1, 1))\<rparr>"

section \<open>Properties\<close>

lemma calls_log_verbose: "calls (log_verbose msg w) = calls w"
  by (simp add: log_verbose_def)

lemma open_fds_log_verbose: "open_fds (log_verbose msg w) = open_fds w"
  by (simp add: log_verbose_def)

subsection \<open>The tone emitter\<close>

text \<open>Widening the 16-bit frequency to the signed 32-bit value field keeps its value.\<close>

lemma sint_ucast_16_32: "sint (ucast (f :: 16 word) :: 32 word) = uint f"
proof -
  have hi: "uint f < 2 ^ 16"
    using uint_bounded [of f] by simp
  have lo: "0 \<le> uint f"
    by simp
  have "- (2 ^ 31) \<le> uint f"
    by (rule order_trans [OF _ lo]) simp
  moreover have "uint f < 2 ^ 31"
    using hi by simp
  ultimately have "signed_take_bit 31 (uint f) = uint f"
    by (simp add: signed_take_bit_int_eq_self)
  then show ?thesis
    by (simp add: signed_ucast_eq)
qed

lemma calls_driver_begin_tone:
  "calls (world_of (driver_begin_tone k driver f w)) =
     calls w @ [Write (device_fd driver) (begin_tone_event driver f) sizeof_input_event]"
  by (simp add: driver_begin_tone_def sys_write_def safe_error_exit_def calls_log_verbose Let_def)

lemma calls_driver_end_tone:
  "calls (world_of (driver_end_tone k driver w)) =
     calls w @ [Write (device_fd driver) (end_tone_event driver) sizeof_input_event]"
  by (simp add: driver_end_tone_def sys_write_def safe_error_exit_def calls_log_verbose Let_def)

text \<open>
  C1. Under the tone protocol, \<open>driver_begin_tone\<close> makes exactly one kernel call, a
  write of one record of \<open>sizeof_input_event\<close> bytes to the instance's descriptor; the
  record's code is \<open>SND_TONE\<close> and its value is the frequency, for every 16-bit
  frequency (zero included). \<open>driver_end_tone\<close> writes one record with the same code
  and value 0, also right after a \<open>driver_begin_tone\<close> of any frequency.
\<close>

theorem tone_protocol_events:
  assumes "device_flags driver = snd_api_int SND_API_TONE"
  shows "calls (world_of (driver_begin_tone k driver f w)) =
           calls w @ [Write (device_fd driver) (begin_tone_event driver f) sizeof_input_event]
         \<and> ev_code (begin_tone_event driver f) = word_of_nat SND_TONE
         \<and> sint (ev_value (begin_tone_event driver f)) = uint f
         \<and> calls (world_of (driver_end_tone k driver w)) =
           calls w @ [Write (device_fd driver) (end_tone_event driver) sizeof_input_event]
         \<and> ev_code (end_tone_event driver) = word_of_nat SND_TONE
         \<and> ev_value (end_tone_event driver) = 0
         \<and> calls (world_of (driver_end_tone k driver (world_of (driver_begin_tone k driver f w)))) =
           calls w @ [Write (device_fd driver) (begin_tone_event driver f) sizeof_input_event,
                      Write (device_fd driver) (end_tone_event driver) sizeof_input_event]"
  using assms
  by (simp add: calls_driver_begin_tone calls_driver_end_tone begin_tone_event_def
      end_tone_event_def sint_ucast_16_32)

theorem tone_protocol_events_witness:
  "device_flags detected_tone = snd_api_int SND_API_TONE
   \<and> calls (world_of (driver_begin_tone pcspkr detected_tone 440 fresh_world)) =
       [Write 3 (begin_tone_event detected_tone 440) 24]
   \<and> ev_code (begin_tone_event detected_tone 440) = 2
   \<and> sint (ev_value (begin_tone_event detected_tone 440)) = 440
   \<and> sint (ev_value (begin_tone_event detected_tone 0)) = 0
   \<and> ev_value (end_tone_event detected_tone) = 0"
proof -
  have h: "device_flags detected_tone = snd_api_int SND_API_TONE"
    by (simp add: detected_tone_def)
  show ?thesis
    using h tone_protocol_events [OF h, of pcspkr 440 fresh_world]
      tone_protocol_events [OF h, of pcspkr 0 fresh_world]
    by (simp add: detected_tone_def fresh_world_def SND_TONE_def sizeof_input_event_def)
qed


text \<open>
  C6. Under the bell protocol, \<open>driver_begin_tone\<close> writes one record with code
  \<open>SND_BELL\<close> and value 1 whatever the frequency, and \<open>driver_end_tone\<close> writes one
  with code \<open>SND_BELL\<close> and value 0.
\<close>

theorem bell_protocol_events:
  assumes "device_flags driver = snd_api_int SND_API_BELL"
  shows "calls (world_of (driver_begin_tone k driver f w)) =
           calls w @ [Write (device_fd driver) (begin_tone_event driver f) sizeof_input_event]
         \<and> ev_code (begin_tone_event driver f) = word_of_nat SND_BELL
         \<and> ev_value (begin_tone_event driver f) = 1
         \<and> calls (world_of (driver_end_tone k driver w)) =
           calls w @ [Write (device_fd driver) (end_tone_event driver) sizeof_input_event]
         \<and> ev_code (end_tone_event driver) = word_of_nat SND_BELL
         \<and> ev_value (end_tone_event driver) = 0"
  using assms
  by (simp add: calls_driver_begin_tone calls_driver_end_tone begin_tone_event_def
      end_tone_event_def)

theorem bell_protocol_events_witness:
  "device_flags detected_bell = snd_api_int SND_API_BELL
   \<and> calls (world_of (driver_begin_tone pcspkr detected_bell 440 fresh_world)) =
       [Write 3 (begin_tone_event detected_bell 440) 24]
   \<and> ev_code (begin_tone_event detected_bell 440) = 1
   \<and> ev_value (begin_tone_event detected_bell 440) = 1
   \<and> ev_value (begin_tone_event detected_bell 0) = 1
   \<and> ev_value (end_tone_event detected_bell) = 0"
proof -
  have h: "device_flags detected_bell = snd_api_int SND_API_BELL"
    by (simp add: detected_bell_def)
  show ?thesis
    using h bell_protocol_events [OF h, of pcspkr 440 fresh_world]
      bell_protocol_events [OF h, of pcspkr 0 fresh_world]
    by (simp add: detected_bell_def fresh_world_def SND_BELL_def sizeof_input_event_def)
qed

text \<open>
  C3. When the write of \<open>driver_begin_tone\<close> or \<open>driver_end_tone\<close> returns a count
  other than the size of the record, the function does not return: it ends the process
  through \<open>safe_error_exit\<close>. When the write returns exactly the size, it returns.
\<close>

theorem write_size_mismatch_is_fatal:
  "(write_count k (device_fd driver) (begin_tone_event driver f) sizeof_input_event
      \<noteq> word_of_nat sizeof_input_event
    \<longrightarrow> \<not> returned (driver_begin_tone k driver f w)
        \<and> driver_begin_tone k driver f w =
            Exits ''write EV_SND'' (world_of (driver_begin_tone k driver f w)))
   \<and> (write_count k (device_fd driver) (begin_tone_event driver f) sizeof_input_event
      = word_of_nat sizeof_input_event
    \<longrightarrow> returned (driver_begin_tone k driver f w))
   \<and> (write_count k (device_fd driver) (end_tone_event driver) sizeof_input_event
      \<noteq> word_of_nat sizeof_input_event
    \<longrightarrow> \<not> returned (driver_end_tone k driver w)
        \<and> driver_end_tone k driver w =
            Exits ''write EV_SND'' (world_of (driver_end_tone k driver w)))
   \<and> (write_count k (device_fd driver) (end_tone_event driver) sizeof_input_event
      = word_of_nat sizeof_input_event
    \<longrightarrow> returned (driver_end_tone k driver w))"
  by (auto simp add: driver_begin_tone_def driver_end_tone_def sys_write_def
      safe_error_exit_def Let_def)

theorem write_size_mismatch_is_fatal_witness:
  "\<not> returned (driver_begin_tone short_writer detected_tone 440 fresh_world)
   \<and> \<not> returned (driver_end_tone short_writer detected_tone fresh_world)
   \<and> returned (driver_begin_tone pcspkr detected_tone 440 fresh_world)
   \<and> returned (driver_end_tone pcspkr detected_tone fresh_world)"
  using write_size_mismatch_is_fatal [of short_writer detected_tone 440 fresh_world]
    write_size_mismatch_is_fatal [of pcspkr detected_tone 440 fresh_world]
  by (simp add: short_writer_def pcspkr_def sizeof_input_event_def)

text \<open>
  C10. Under either protocol (and for any value of \<open>device_flags\<close>), the one record
  that \<open>driver_begin_tone\<close> or \<open>driver_end_tone\<close> writes has type \<open>EV_SND\<close> and a
  zero timestamp: the only fields that can be non-zero are type, code and value.
\<close>

theorem event_record_zeroed:
  "calls (world_of (driver_begin_tone k driver f w)) =
     calls w @ [Write (device_fd driver) (begin_tone_event driver f) sizeof_input_event]
   \<and> ev_type (begin_tone_event driver f) = EV_SND
   \<and> ev_time_sec (begin_tone_event driver f) = 0
   \<and> ev_time_usec (begin_tone_event driver f) = 0
   \<and> calls (world_of (driver_end_tone k driver w)) =
     calls w @ [Write (device_fd driver) (end_tone_event driver) sizeof_input_event]
   \<and> ev_type (end_tone_event driver) = EV_SND
   \<and> ev_time_sec (end_tone_event driver) = 0
   \<and> ev_time_usec (end_tone_event driver) = 0"
  by (simp add: calls_driver_begin_tone calls_driver_end_tone begin_tone_event_def
      end_tone_event_def memset_zero_def Let_def)


subsection \<open>Detection\<close>

text \<open>\<open>evbit & (1 << n)\<close> is zero exactly when bit \<open>n\<close> of \<open>evbit\<close> is clear.\<close>

lemma probe_bit: "(evbit :: 64 word) AND 2 ^ n = 0 \<longleftrightarrow> \<not> bit evbit n"
  by (rule and_exp_eq_0_iff_not_bit)

lemma detect_open_ok:
  assumes "chardev_fd k (attempted_path cd) = Some n" and "eviocgsnd k (int n) \<noteq> -1"
  shows "fst (detect_open k driver cd w)"
    and "fst (snd (detect_open k driver cd w)) =
           driver\<lparr>device_fd := int n, device_name := Some (attempted_path cd)\<rparr>"
    and "open_fds (snd (snd (detect_open k driver cd w))) = insert (int n) (open_fds w)"
    and "calls (snd (snd (detect_open k driver cd w))) =
           calls w @ [Open_checked_char_device (attempted_path cd), Ioctl_EVIOCGSND (int n)]"
  using assms
  by (cases cd; simp add: detect_open_def open_checked_device_def open_checked_char_device_def
      ioctl_EVIOCGSND_def attempted_path_def calls_log_verbose open_fds_log_verbose)+


text \<open>
  What does hold on the two failure paths of the open attempt: \<open>device_open\<close> stays
  \<open>false\<close> and the instance is not touched.
\<close>

lemma detect_open_unavailable:
  assumes "chardev_fd k (attempted_path cd) = None
           \<or> (\<exists>n. chardev_fd k (attempted_path cd) = Some n \<and> eviocgsnd k (int n) = -1)"
  shows "\<not> fst (detect_open k driver cd w)"
    and "fst (snd (detect_open k driver cd w)) = driver"
  using assms
  by (cases cd; auto simp add: detect_open_def open_checked_device_def
      open_checked_char_device_def ioctl_EVIOCGSND_def attempted_path_def)+

lemma detect_probe_calls:
  "calls (snd (snd (detect_probe k driver w))) = calls w @ [Ioctl_EVIOCGBIT (device_fd driver)]"
  by (simp add: detect_probe_def ioctl_EVIOCGBIT_def calls_log_verbose)

lemma detect_probe_open_fds:
  "open_fds (snd (snd (detect_probe k driver w))) = open_fds w"
  by (simp add: detect_probe_def ioctl_EVIOCGBIT_def open_fds_log_verbose)

lemma detect_probe_device_fd:
  "device_fd (fst (snd (detect_probe k driver w))) = device_fd driver"
  by (simp add: detect_probe_def ioctl_EVIOCGBIT_def)

lemma detect_probe_fails:
  assumes "fst (eviocgbit k (device_fd driver) 0) = -1
           \<or> (\<not> bit (snd (eviocgbit k (device_fd driver) 0)) SND_TONE
              \<and> \<not> bit (snd (eviocgbit k (device_fd driver) 0)) SND_BELL)"
  shows "\<not> fst (detect_probe k driver w)"
    and "fst (snd (detect_probe k driver w)) = driver"
  using assms
  by (auto simp add: detect_probe_def ioctl_EVIOCGBIT_def probe_bit)

lemma detect_probe_tone:
  assumes "fst (eviocgbit k (device_fd driver) 0) \<noteq> -1"
      and "bit (snd (eviocgbit k (device_fd driver) 0)) SND_TONE"
  shows "fst (detect_probe k driver w)"
    and "fst (snd (detect_probe k driver w)) = driver\<lparr>device_flags := snd_api_int SND_API_TONE\<rparr>"
  using assms
  by (simp_all add: detect_probe_def ioctl_EVIOCGBIT_def probe_bit)

lemma driver_detect_unfold:
  "driver_detect k driver cd w =
     (if fst (detect_open k driver cd w)
      then detect_probe k (fst (snd (detect_open k driver cd w)))
             (snd (snd (detect_open k driver cd w)))
      else (False, snd (detect_open k driver cd w)))"
  by (simp add: driver_detect_def split: prod.splits)

text \<open>
  C2. When the device opens, supports the sound-event class, answers the bitmask query
  and has both the tone bit and the bell bit set, \<open>driver_detect\<close> succeeds and stores
  \<open>SND_API_TONE\<close>, not \<open>SND_API_BELL\<close>, in \<open>device_flags\<close>. (The proof uses only the
  tone bit: the bell bit is not looked at once the tone bit is found.)
\<close>

theorem detect_prefers_tone:
  assumes "chardev_fd k (attempted_path cd) = Some n"
      and "eviocgsnd k (int n) \<noteq> -1"
      and "fst (eviocgbit k (int n) 0) \<noteq> -1"
      and "bit (snd (eviocgbit k (int n) 0)) SND_TONE"
      and "bit (snd (eviocgbit k (int n) 0)) SND_BELL"
  shows "fst (driver_detect k driver cd w)
         \<and> device_flags (fst (snd (driver_detect k driver cd w))) = snd_api_int SND_API_TONE
         \<and> device_flags (fst (snd (driver_detect k driver cd w))) \<noteq> snd_api_int SND_API_BELL"
proof -
  let ?d = "driver\<lparr>device_fd := int n, device_name := Some (attempted_path cd)\<rparr>"
  let ?w = "snd (snd (detect_open k driver cd w))"
  have opened: "fst (detect_open k driver cd w)" "fst (snd (detect_open k driver cd w)) = ?d"
    using assms(1,2) by (rule detect_open_ok)+
  then have "driver_detect k driver cd w = detect_probe k ?d ?w"
    by (simp add: driver_detect_unfold)
  moreover have "fst (detect_probe k ?d ?w)"
    and "fst (snd (detect_probe k ?d ?w)) = ?d\<lparr>device_flags := snd_api_int SND_API_TONE\<rparr>"
    using assms(3,4) by (simp_all add: detect_probe_tone)
  ultimately show ?thesis
    by simp
qed

theorem detect_prefers_tone_witness:
  "chardev_fd pcspkr (attempted_path None) = Some 3
   \<and> eviocgsnd pcspkr 3 \<noteq> -1
   \<and> fst (eviocgbit pcspkr 3 0) \<noteq> -1
   \<and> bit (snd (eviocgbit pcspkr 3 0)) SND_TONE
   \<and> bit (snd (eviocgbit pcspkr 3 0)) SND_BELL
   \<and> fst (driver_detect pcspkr driver_data None fresh_world)
   \<and> device_flags (fst (snd (driver_detect pcspkr driver_data None fresh_world))) = 0"
proof -
  have h1: "chardev_fd pcspkr (attempted_path None) = Some 3"
    by (simp add: pcspkr_def)
  have h2: "eviocgsnd pcspkr (int 3) \<noteq> -1"
    by (simp add: pcspkr_def)
  have h3: "fst (eviocgbit pcspkr (int 3) 0) \<noteq> -1"
    by (simp add: pcspkr_def)
  have h4: "bit (snd (eviocgbit pcspkr (int 3) 0)) SND_TONE"
    by (simp add: pcspkr_def SND_TONE_def)
  have h5: "bit (snd (eviocgbit pcspkr (int 3) 0)) SND_BELL"
    by (simp add: pcspkr_def SND_BELL_def)
  show ?thesis
    using h1 h2 h3 h4 h5 detect_prefers_tone [OF h1 h2 h3 h4 h5, of driver_data fresh_world]
    by simp
qed

text \<open>
  C4. When the device opens and supports the sound-event class but the probe fails,
  because the bitmask query returns \<open>-1\<close> or because the bitmask has neither the tone
  bit nor the bell bit, \<open>driver_detect\<close> returns \<open>false\<close>; in both cases the instance,
  the open descriptors and the kernel calls are the same: the descriptor and the path are
  stored on the instance, the descriptor is still open, and a following \<open>driver_fini\<close>
  closes it.
\<close>

theorem probe_failure_keeps_handle:
  assumes "chardev_fd k (attempted_path cd) = Some n"
      and "eviocgsnd k (int n) \<noteq> -1"
      and "fst (eviocgbit k (int n) 0) = -1
           \<or> (\<not> bit (snd (eviocgbit k (int n) 0)) SND_TONE
              \<and> \<not> bit (snd (eviocgbit k (int n) 0)) SND_BELL)"
  shows "\<not> fst (driver_detect k driver cd w)
         \<and> fst (snd (driver_detect k driver cd w)) =
             driver\<lparr>device_fd := int n, device_name := Some (attempted_path cd)\<rparr>
         \<and> open_fds (snd (snd (driver_detect k driver cd w))) = insert (int n) (open_fds w)
         \<and> calls (snd (snd (driver_detect k driver cd w))) =
             calls w @ [Open_checked_char_device (attempted_path cd),
                        Ioctl_EVIOCGSND (int n), Ioctl_EVIOCGBIT (int n)]
         \<and> int n \<notin> open_fds (snd (driver_fini (fst (snd (driver_detect k driver cd w)))
                                     (snd (snd (driver_detect k driver cd w)))))"
proof -
  let ?d = "driver\<lparr>device_fd := int n, device_name := Some (attempted_path cd)\<rparr>"
  let ?w = "snd (snd (detect_open k driver cd w))"
  have opened: "fst (detect_open k driver cd w)" "fst (snd (detect_open k driver cd w)) = ?d"
    using assms(1,2) by (rule detect_open_ok)+
  have world: "open_fds ?w = insert (int n) (open_fds w)"
    "calls ?w = calls w @ [Open_checked_char_device (attempted_path cd), Ioctl_EVIOCGSND (int n)]"
    using assms(1,2) by (rule detect_open_ok)+
  have run: "driver_detect k driver cd w = detect_probe k ?d ?w"
    using opened by (simp add: driver_detect_unfold)
  have failed: "\<not> fst (detect_probe k ?d ?w)" "fst (snd (detect_probe k ?d ?w)) = ?d"
    using assms(3) by (simp_all add: detect_probe_fails)
  show ?thesis
    using failed world
    by (simp add: run detect_probe_calls detect_probe_open_fds driver_fini_def sys_close_def
        open_fds_log_verbose)
qed

theorem probe_failure_keeps_handle_witness:
  "\<not> fst (driver_detect no_evbit_device driver_data None fresh_world)
   \<and> \<not> fst (driver_detect click_only_device driver_data None fresh_world)
   \<and> fst (snd (driver_detect no_evbit_device driver_data None fresh_world)) =
       fst (snd (driver_detect click_only_device driver_data None fresh_world))
   \<and> device_fd (fst (snd (driver_detect no_evbit_device driver_data None fresh_world))) = 3
   \<and> open_fds (snd (snd (driver_detect no_evbit_device driver_data None fresh_world))) =
       {0, 1, 2, 3}
   \<and> open_fds (snd (snd (driver_detect click_only_device driver_data None fresh_world))) =
       {0, 1, 2, 3}"
proof -
  have a1: "chardev_fd no_evbit_device (attempted_path None) = Some 3"
    by (simp add: no_evbit_device_def pcspkr_def)
  have a2: "eviocgsnd no_evbit_device (int 3) \<noteq> -1"
    by (simp add: no_evbit_device_def pcspkr_def)
  have a3: "fst (eviocgbit no_evbit_device (int 3) 0) = -1
            \<or> (\<not> bit (snd (eviocgbit no_evbit_device (int 3) 0)) SND_TONE
               \<and> \<not> bit (snd (eviocgbit no_evbit_device (int 3) 0)) SND_BELL)"
    by (simp add: no_evbit_device_def pcspkr_def)
  have b1: "chardev_fd click_only_device (attempted_path None) = Some 3"
    by (simp add: click_only_device_def pcspkr_def)
  have b2: "eviocgsnd click_only_device (int 3) \<noteq> -1"
    by (simp add: click_only_device_def pcspkr_def)
  have b3: "fst (eviocgbit click_only_device (int 3) 0) = -1
            \<or> (\<not> bit (snd (eviocgbit click_only_device (int 3) 0)) SND_TONE
               \<and> \<not> bit (snd (eviocgbit click_only_device (int 3) 0)) SND_BELL)"
    by (simp add: click_only_device_def pcspkr_def SND_TONE_def SND_BELL_def)
  show ?thesis
    using probe_failure_keeps_handle [OF a1 a2 a3, of driver_data fresh_world]
      probe_failure_keeps_handle [OF b1 b2 b3, of driver_data fresh_world]
    by (auto simp add: fresh_world_def)
qed

text \<open>
  C5. At a device that opens as descriptor 3 but fails the sound-event-class check,
  \<open>driver_detect\<close> returns \<open>false\<close> and leaves the instance as it was, yet descriptor 3,
  which was not open before, is open afterwards: \<open>open_checked_device\<close> returns \<open>-1\<close>
  without closing it, and no later call can, since nothing records it.
\<close>

theorem detect_leaks_descriptor:
  "\<not> fst (driver_detect no_snd_device driver_data (Some ''/dev/input/event0'') fresh_world)
   \<and> fst (snd (driver_detect no_snd_device driver_data (Some ''/dev/input/event0'') fresh_world))
       = driver_data
   \<and> calls (snd (snd (driver_detect no_snd_device driver_data (Some ''/dev/input/event0'')
                        fresh_world)))
       = [Open_checked_char_device ''/dev/input/event0'', Ioctl_EVIOCGSND 3]
   \<and> 3 \<notin> open_fds fresh_world
   \<and> 3 \<in> open_fds (snd (snd (driver_detect no_snd_device driver_data
                               (Some ''/dev/input/event0'') fresh_world)))"
  by (simp add: driver_detect_def detect_open_def open_checked_device_def
      open_checked_char_device_def ioctl_EVIOCGSND_def no_snd_device_def pcspkr_def
      fresh_world_def log_verbose_def)

lemma open_attempts_detect_open:
  "filter is_open_attempt (calls (snd (snd (detect_open k driver cd w)))) =
     filter is_open_attempt (calls w) @ [Open_checked_char_device (attempted_path cd)]"
  by (cases cd; simp add: detect_open_def open_checked_device_def open_checked_char_device_def
      ioctl_EVIOCGSND_def attempted_path_def calls_log_verbose Let_def
      split: option.splits prod.splits)

text \<open>
  C7. \<open>driver_detect\<close> makes exactly one open attempt, whatever happens afterwards: on
  the caller's path when one is given, and otherwise on the one default path
  \<open>/dev/input/by-path/platform-pcspkr-event-spkr\<close>.
\<close>

theorem detect_tries_one_path:
  "filter is_open_attempt (calls (snd (snd (driver_detect k driver (Some cd) w)))) =
     filter is_open_attempt (calls w) @ [Open_checked_char_device cd]
   \<and> filter is_open_attempt (calls (snd (snd (driver_detect k driver None w)))) =
     filter is_open_attempt (calls w) @ [Open_checked_char_device default_name]
   \<and> default_name = ''/dev/input/by-path/platform-pcspkr-event-spkr''"
proof -
  have "filter is_open_attempt (calls (snd (snd (driver_detect k driver c w)))) =
          filter is_open_attempt (calls w) @ [Open_checked_char_device (attempted_path c)]" for c
    by (simp add: driver_detect_unfold detect_probe_calls open_attempts_detect_open)
  from this [of "Some cd"] this [of None] show ?thesis
    by (simp add: attempted_path_def default_name_def)
qed

subsection \<open>Releasing the device\<close>

text \<open>
  C8. For every instance, \<open>driver_fini\<close> leaves \<open>-1\<close> in \<open>device_fd\<close> and the descriptor
  the field held is not open afterwards. In particular, once \<open>driver_detect\<close> has opened
  the device (whether the probe then succeeds or fails), the descriptor is stored and
  open, and \<open>driver_fini\<close> on the resulting instance closes it.
\<close>

theorem fini_releases_handle:
  "device_fd (fst (driver_fini driver w)) = -1
   \<and> device_fd driver \<notin> open_fds (snd (driver_fini driver w))
   \<and> (chardev_fd k (attempted_path cd) = Some n \<and> eviocgsnd k (int n) \<noteq> -1 \<longrightarrow>
        device_fd (fst (snd (driver_detect k driver cd w))) = int n
        \<and> int n \<in> open_fds (snd (snd (driver_detect k driver cd w)))
        \<and> int n \<notin> open_fds (snd (driver_fini (fst (snd (driver_detect k driver cd w)))
                                    (snd (snd (driver_detect k driver cd w)))))
        \<and> device_fd (fst (driver_fini (fst (snd (driver_detect k driver cd w)))
                            (snd (snd (driver_detect k driver cd w))))) = -1)"
proof -
  have fini: "device_fd (fst (driver_fini d v)) = -1 \<and> device_fd d \<notin> open_fds (snd (driver_fini d v))"
    for d v
    by (simp add: driver_fini_def sys_close_def)
  have "device_fd (fst (snd (driver_detect k driver cd w))) = int n
        \<and> int n \<in> open_fds (snd (snd (driver_detect k driver cd w)))"
    if h: "chardev_fd k (attempted_path cd) = Some n" "eviocgsnd k (int n) \<noteq> -1"
  proof -
    let ?d = "driver\<lparr>device_fd := int n, device_name := Some (attempted_path cd)\<rparr>"
    let ?w = "snd (snd (detect_open k driver cd w))"
    have opened: "fst (detect_open k driver cd w)" "fst (snd (detect_open k driver cd w)) = ?d"
      "open_fds ?w = insert (int n) (open_fds w)"
      using h by (rule detect_open_ok)+
    then have "driver_detect k driver cd w = detect_probe k ?d ?w"
      by (simp add: driver_detect_unfold)
    then show ?thesis
      using opened(3) by (simp add: detect_probe_device_fd detect_probe_open_fds)
  qed
  then show ?thesis
    using fini by metis
qed

theorem fini_releases_handle_witness:
  "device_fd (fst (snd (driver_detect click_only_device driver_data None fresh_world))) = 3
   \<and> 3 \<in> open_fds (snd (snd (driver_detect click_only_device driver_data None fresh_world)))
   \<and> 3 \<notin> open_fds (snd (driver_fini
                (fst (snd (driver_detect click_only_device driver_data None fresh_world)))
                (snd (snd (driver_detect click_only_device driver_data None fresh_world)))))
   \<and> device_fd (fst (driver_fini
                (fst (snd (driver_detect click_only_device driver_data None fresh_world)))
                (snd (snd (driver_detect click_only_device driver_data None fresh_world))))) = -1"
proof -
  have "chardev_fd click_only_device (attempted_path None) = Some 3
        \<and> eviocgsnd click_only_device (int 3) \<noteq> -1"
    by (simp add: click_only_device_def pcspkr_def)
  then show ?thesis
    using fini_releases_handle [of driver_data fresh_world click_only_device None 3]
    by simp
qed

text \<open>
  C9. \<open>driver_fini\<close> is unconditional: whatever the instance holds in \<open>device_fd\<close>, it
  calls \<open>close\<close> on exactly that value, as its only kernel call, and then stores \<open>-1\<close> in
  the field; nothing else of the instance changes and no test of the field is made. The
  statically initialised instance starts with the value \<open>0\<close> in the field, not \<open>-1\<close>.
\<close>

theorem driver_fini_unconditional:
  "calls (snd (driver_fini driver w)) = calls w @ [Close (device_fd driver)]
   \<and> open_fds (snd (driver_fini driver w)) = open_fds w - {device_fd driver}
   \<and> fst (driver_fini driver w) = driver\<lparr>device_fd := -1\<rparr>
   \<and> device_fd driver_data = 0
   \<and> calls (snd (driver_fini driver_data w)) = calls w @ [Close 0]"
  by (simp add: driver_fini_def sys_close_def driver_data_def calls_log_verbose
      open_fds_log_verbose)

end
